theory Spec2Isabelle
  imports Complex_Main "HOL-Library.AList" "HOL-Library.Sublist"
begin

section \<open>The quote pipeline of backend/app/main.py\<close>

text \<open>
  The endpoint \<^verbatim>\<open>quote\<close> of \<^verbatim>\<open>backend/app/main.py\<close> validates a request, evaluates every
  provider, resolves the criteria weights, scores every provider and returns the best
  \<^verbatim>\<open>top_n\<close> of them. The embedding follows the function line by line.

  Numbers: in the pipeline Python's \<^verbatim>\<open>Decimal\<close> and \<^verbatim>\<open>float\<close> values are modelled as
  \<^typ>\<open>real\<close>, so sums, quotients and comparisons are exact; the conversions between the
  two (\<^verbatim>\<open>Decimal(str(x))\<close>, \<^verbatim>\<open>float(x)\<close> on a number) are the identity. The resolution of
  the weights, whose outcome depends on whether a sum of floats is zero, is defined for
  any float arithmetic: the type of the floats (which may hold NaN and the infinities)
  and the operations on them are parameters, and the pipeline uses it with the exact
  arithmetic of the reals.

  Exceptions are values of \<^typ>\<open>'a + 'b\<close> with the error on the left.
\<close>

subsection \<open>Errors and Python values\<close>

datatype error =
    HTTPException nat string
  | FloatConversionError
  | KeyError string
  | ValueError
  | ZeroDivisionError

text \<open>
  Float arithmetic, as far as the resolution of the weights uses it. \<open>'x\<close> is the type
  of the floats. \<open>f_lit\<close> gives the float a decimal literal of the source denotes,
  \<open>f_sum\<close> is the built-in \<^verbatim>\<open>sum\<close> on a sequence of floats, \<open>f_div\<close> the quotient
  of two floats when the divisor is not zero, and \<open>f_is_zero x\<close> is \<^verbatim>\<open>x == 0\<close>: the floats
  that are false in a condition, and the divisors on which \<^verbatim>\<open>/\<close> raises.
\<close>

record 'x float_arith =
  f_lit :: "real \<Rightarrow> 'x"
  f_sum :: "'x list \<Rightarrow> 'x"
  f_div :: "'x \<Rightarrow> 'x \<Rightarrow> 'x"
  f_is_zero :: "'x \<Rightarrow> bool"

text \<open>The exact arithmetic of the reals.\<close>

definition real_arith :: "real float_arith" where
  "real_arith =
     \<lparr>f_lit = (\<lambda>r. r), f_sum = sum_list, f_div = (\<lambda>a b. a / b), f_is_zero = (\<lambda>x. x = 0)\<rparr>"



text \<open>\<^verbatim>\<open>a / b\<close> on floats: ZeroDivisionError when \<^verbatim>\<open>b == 0\<close>.\<close>

definition float_div :: "'x float_arith \<Rightarrow> 'x \<Rightarrow> 'x \<Rightarrow> error + 'x" where
  "float_div A a b = (if f_is_zero A b then Inl ZeroDivisionError else Inr (f_div A a b))"

text \<open>
  A value of the request's \<^verbatim>\<open>weights\<close> dictionary, whose values pydantic does not
  constrain. \<open>PyNum x\<close> stands for a value that \<^verbatim>\<open>float(v)\<close> converts to the float \<open>x\<close>
  (a number, a string such as \<^verbatim>\<open>"0.3"\<close>, \<^verbatim>\<open>"nan"\<close> or \<^verbatim>\<open>"inf"\<close>); \<open>PyOther\<close> for a value on
  which \<^verbatim>\<open>float(v)\<close> raises TypeError, ValueError or OverflowError (\<^verbatim>\<open>None\<close>, a list, a
  string that is not a number, an integer too large for a float).
\<close>

datatype 'x py_value = PyNum 'x | PyOther

fun py_float :: "'x py_value \<Rightarrow> error + 'x" where
  "py_float (PyNum x) = Inr x"
| "py_float PyOther = Inl FloatConversionError"

text \<open>The same division in exact arithmetic, for the helpers modelled on the reals.\<close>

definition py_div :: "real \<Rightarrow> real \<Rightarrow> error + real" where
  "py_div a b = (if b = 0 then Inl ZeroDivisionError else Inr (a / b))"

text \<open>Sequencing: the first exception raised ends the computation.\<close>

definition err_bind :: "error + 'a \<Rightarrow> ('a \<Rightarrow> error + 'b) \<Rightarrow> error + 'b" where
  "err_bind m f = (case m of Inl e \<Rightarrow> Inl e | Inr x \<Rightarrow> f x)"

text \<open>A dictionary with string keys, in insertion order.\<close>

type_synonym 'v dict = "(string \<times> 'v) list"

definition dict_get :: "'v dict \<Rightarrow> string \<Rightarrow> error + 'v" where
  "dict_get d k = (case map_of d k of None \<Rightarrow> Inl (KeyError k) | Some v \<Rightarrow> Inr v)"

text \<open>\<^verbatim>\<open>round(x, n)\<close>: to the nearest multiple of \<open>10\<^sup>-\<^sup>n\<close>, a tie to the even one.\<close>

definition round_half_even :: "real \<Rightarrow> int" where
  "round_half_even y =
     (let f = \<lfloor>y\<rfloor>; d = y - of_int f
      in if d < 1 / 2 then f else if 1 / 2 < d then f + 1
         else if even f then f else f + 1)"

definition py_round :: "real \<Rightarrow> nat \<Rightarrow> real" where
  "py_round x n = of_int (round_half_even (x * 10 ^ n)) / 10 ^ n"

text \<open>\<^verbatim>\<open>xs[:n]\<close>, where \<open>n\<close> may be \<^verbatim>\<open>None\<close> or negative.\<close>

definition slice_to :: "'a list \<Rightarrow> int option \<Rightarrow> 'a list" where
  "slice_to xs n =
     (case n of
        None \<Rightarrow> xs
      | Some k \<Rightarrow> if 0 \<le> k then take (nat k) xs else take (length xs - nat (- k)) xs)"

text \<open>\<^verbatim>\<open>str.upper()\<close> on ASCII text (currency codes).\<close>

definition upper_char :: "char \<Rightarrow> char" where
  "upper_char c =
     (let n = (of_char c :: nat) in if 97 \<le> n \<and> n \<le> 122 then char_of (n - 32) else c)"

definition upper :: "string \<Rightarrow> string" where
  "upper s = map upper_char s"

subsection \<open>Weight resolution (lines 80 to 97)\<close>

definition default_weights :: "'x float_arith \<Rightarrow> 'x dict" where
  "default_weights A =
     [(''fees_fx'', f_lit A 0.5), (''trust'', f_lit A 0.15), (''service'', f_lit A 0.15),
      (''customer_satisfaction'', f_lit A 0.1), (''reliability'', f_lit A 0.06),
      (''speed'', f_lit A 0.04)]"

text \<open>
  The loop of lines 91 to 93: a key of the request overrides \<open>merged\<close> only when
  \<open>merged\<close> already has it, and only then is its value converted.
\<close>

fun merge_weights :: "'x dict \<Rightarrow> 'x py_value dict \<Rightarrow> error + 'x dict" where
  "merge_weights merged [] = Inr merged"
| "merge_weights merged ((k, v) # kvs) =
     (if map_of merged k \<noteq> None
      then (case py_float v of
              Inl e \<Rightarrow> Inl e
            | Inr x \<Rightarrow> merge_weights (AList.update k x merged) kvs)
      else merge_weights merged kvs)"

text \<open>Line 94: \<^verbatim>\<open>sum(merged.values()) or 1.0\<close> is \<^verbatim>\<open>1.0\<close> when the sum is zero.\<close>

definition weights_total :: "'x float_arith \<Rightarrow> 'x dict \<Rightarrow> 'x" where
  "weights_total A merged =
     (let s = f_sum A (map snd merged) in if f_is_zero A s then f_lit A 1 else s)"

text \<open>The comprehension of line 95.\<close>

fun divide_all :: "'x float_arith \<Rightarrow> 'x dict \<Rightarrow> 'x \<Rightarrow> error + 'x dict" where
  "divide_all A [] total_w = Inr []"
| "divide_all A ((k, v) # kvs) total_w =
     (case float_div A v total_w of
        Inl e \<Rightarrow> Inl e
      | Inr q \<Rightarrow> (case divide_all A kvs total_w of
                    Inl e \<Rightarrow> Inl e
                  | Inr rest \<Rightarrow> Inr ((k, q) # rest)))"

text \<open>
  Lines 80 to 97. The request's \<^verbatim>\<open>weights\<close> is \<^verbatim>\<open>None\<close> or a dictionary; the test
  \<^verbatim>\<open>if req_weights\<close> fails on \<^verbatim>\<open>None\<close> and on the empty dictionary.
\<close>

definition resolve_weights :: "'x float_arith \<Rightarrow> 'x py_value dict option \<Rightarrow> error + 'x dict" where
  "resolve_weights A req_weights =
     (case req_weights of
        None \<Rightarrow> Inr (default_weights A)
      | Some rw \<Rightarrow>
          if rw \<noteq> [] then
            (case merge_weights (default_weights A) rw of
               Inl e \<Rightarrow> Inl e
             | Inr merged \<Rightarrow> divide_all A merged (weights_total A merged))
          else Inr (default_weights A))"

subsection \<open>Providers, requests and the imported helpers\<close>

text \<open>
  A row of the provider table. The fee rules are opaque to \<^verbatim>\<open>main.py\<close>: their type is
  the parameter \<open>'f\<close>.
\<close>

record 'f provider =
  pid :: int
  code :: string
  name :: string
  country :: string
  fee_rules :: 'f
  prov_notes :: string
  trust_score :: real
  service_quality :: real
  customer_satisfaction :: real
  reliability :: real
  speed_score :: real

text \<open>What \<^verbatim>\<open>compute_for_provider\<close> returns; the breakdown is opaque, of type \<open>'b\<close>.\<close>

record 'b fee_result =
  res_landing :: real
  res_effective_rate :: real
  res_fees :: real
  res_fee_breakdown :: 'b

record quote_request =
  from_currency :: string
  to_currency :: string
  amount :: real
  criteria :: "string list option"
  top_n :: "int option"
  weights :: "real py_value dict option"

text \<open>
  The functions \<^verbatim>\<open>main.py\<close> imports from \<^verbatim>\<open>services.py\<close>, which is not part of the
  sources at hand, are parameters of the model. Each may raise.
  \<open>get_live_rates\<close> returns the \<^verbatim>\<open>rates\<close> entry of the JSON answer, \<open>None\<close> when the
  answer has no such entry.
\<close>

record ('f, 'b) services =
  get_live_rates :: "string \<Rightarrow> error + real dict option"
  compute_for_provider :: "real \<Rightarrow> real \<Rightarrow> 'f \<Rightarrow> error + 'b fee_result"
  normalize :: "real \<Rightarrow> error + real"
  compute_financial_score :: "real \<Rightarrow> real \<Rightarrow> real \<Rightarrow> real \<Rightarrow> error + real"

subsection \<open>Numeric results (lines 65 to 78)\<close>

record 'b numeric_result =
  provider_id :: int
  nr_code :: string
  nr_name :: string
  nr_country :: string
  landing :: real
  effective_rate :: real
  fees :: real
  fee_breakdown :: 'b
  nr_notes :: string

fun numeric_results ::
  "('f, 'b) services \<Rightarrow> real \<Rightarrow> real \<Rightarrow> 'f provider list \<Rightarrow> error + 'b numeric_result list"
where
  "numeric_results S amt rate [] = Inr []"
| "numeric_results S amt rate (p # ps) =
     (case compute_for_provider S amt rate (fee_rules p) of
        Inl e \<Rightarrow> Inl e
      | Inr res \<Rightarrow>
          (case numeric_results S amt rate ps of
             Inl e \<Rightarrow> Inl e
           | Inr rest \<Rightarrow>
               Inr (\<lparr>provider_id = pid p, nr_code = code p, nr_name = name p,
                     nr_country = country p, landing = res_landing res,
                     effective_rate = res_effective_rate res, fees = res_fees res,
                     fee_breakdown = res_fee_breakdown res, nr_notes = prov_notes p\<rparr> # rest)))"

subsection \<open>The comparison baselines (lines 99 to 102)\<close>

text \<open>\<^verbatim>\<open>max\<close> and \<^verbatim>\<open>min\<close> of a sequence raise ValueError on an empty one.\<close>

fun py_max :: "real list \<Rightarrow> error + real" where
  "py_max [] = Inl ValueError"
| "py_max (x # xs) = Inr (fold max xs x)"

fun py_min :: "real list \<Rightarrow> error + real" where
  "py_min [] = Inl ValueError"
| "py_min (x # xs) = Inr (fold min xs x)"

text \<open>\<^verbatim>\<open>min(seq, default=d)\<close> returns \<open>d\<close> on an empty sequence.\<close>

fun py_min_default :: "real list \<Rightarrow> real \<Rightarrow> real" where
  "py_min_default [] d = d"
| "py_min_default (x # xs) d = fold min xs x"

definition best_landing :: "'b numeric_result list \<Rightarrow> error + real" where
  "best_landing nrs = (if nrs \<noteq> [] then py_max (map landing nrs) else Inr 0)"

definition best_fees :: "'b numeric_result list \<Rightarrow> error + real" where
  "best_fees nrs =
     (case (if nrs \<noteq> [] then py_min (map fees nrs) else Inr 0) of
        Inl e \<Rightarrow> Inl e
      | Inr bf \<Rightarrow>
          if bf = 0
          then Inr (py_min_default (map fees (filter (\<lambda>r. fees r > 0) nrs)) 1)
          else Inr bf)"

subsection \<open>Scoring one provider (lines 105 to 139)\<close>

text \<open>The values of the loop body before they are rounded (lines 112 to 126).\<close>

record raw_scores =
  financial_score :: real
  trust_n :: real
  service_n :: real
  cust_n :: real
  reliability_n :: real
  speed_n :: real
  composite :: real

definition score_candidate ::
  "('f, 'b) services \<Rightarrow> real dict \<Rightarrow> real \<Rightarrow> real \<Rightarrow> 'b numeric_result \<Rightarrow> 'f provider
     \<Rightarrow> error + raw_scores"
where
  "score_candidate S w bl bf m p =
     err_bind (compute_financial_score S (landing m) (fees m) bl bf) (\<lambda>fin.
     err_bind (normalize S (trust_score p)) (\<lambda>tr.
     err_bind (normalize S (service_quality p)) (\<lambda>se.
     err_bind (normalize S (customer_satisfaction p)) (\<lambda>cu.
     err_bind (normalize S (reliability p)) (\<lambda>re.
     err_bind (normalize S (speed_score p)) (\<lambda>sp.
     err_bind (dict_get w ''fees_fx'') (\<lambda>w_fees_fx.
     err_bind (dict_get w ''trust'') (\<lambda>w_trust.
     err_bind (dict_get w ''service'') (\<lambda>w_service.
     err_bind (dict_get w ''customer_satisfaction'') (\<lambda>w_cust.
     err_bind (dict_get w ''reliability'') (\<lambda>w_reliability.
     err_bind (dict_get w ''speed'') (\<lambda>w_speed.
       Inr \<lparr>financial_score = fin, trust_n = tr, service_n = se, cust_n = cu,
            reliability_n = re, speed_n = sp,
            composite = w_fees_fx * fin + w_trust * tr + w_service * se + w_cust * cu
                        + w_reliability * re + w_speed * sp\<rparr>))))))))))))"

text \<open>An entry of the answer (lines 128 to 139): the match, and the rounded scores.\<close>

record component_scores =
  cs_financial :: real
  cs_trust :: real
  cs_service :: real
  cs_customer_satisfaction :: real
  cs_reliability :: real
  cs_speed :: real

record 'b scored_candidate =
  matched :: "'b numeric_result"
  component_scores :: component_scores
  composite_score :: real

definition augment_entry :: "'b numeric_result \<Rightarrow> raw_scores \<Rightarrow> 'b scored_candidate" where
  "augment_entry m raw =
     \<lparr>matched = m,
      component_scores =
        \<lparr>cs_financial = py_round (financial_score raw) 6,
         cs_trust = py_round (trust_n raw) 6,
         cs_service = py_round (service_n raw) 6,
         cs_customer_satisfaction = py_round (cust_n raw) 6,
         cs_reliability = py_round (reliability_n raw) 6,
         cs_speed = py_round (speed_n raw) 6\<rparr>,
      composite_score = py_round (composite raw) 6\<rparr>"

text \<open>
  The loop of lines 105 to 139. The match of a provider is the first numeric result with
  its code; a provider without one is skipped.
\<close>

fun augment ::
  "('f, 'b) services \<Rightarrow> real dict \<Rightarrow> real \<Rightarrow> real \<Rightarrow> 'b numeric_result list
     \<Rightarrow> 'f provider list \<Rightarrow> error + 'b scored_candidate list"
where
  "augment S w bl bf nrs [] = Inr []"
| "augment S w bl bf nrs (p # ps) =
     (case find (\<lambda>x. nr_code x = code p) nrs of
        None \<Rightarrow> augment S w bl bf nrs ps
      | Some m \<Rightarrow>
          (case score_candidate S w bl bf m p of
             Inl e \<Rightarrow> Inl e
           | Inr raw \<Rightarrow>
               (case augment S w bl bf nrs ps of
                  Inl e \<Rightarrow> Inl e
                | Inr rest \<Rightarrow> Inr (augment_entry m raw # rest))))"

subsection \<open>Ranking (lines 141 and 142) and the endpoint\<close>

text \<open>\<^verbatim>\<open>sorted\<close> is a stable sort, ascending in the key, as \<^const>\<open>sort_key\<close> is.\<close>

definition rank_top :: "'b scored_candidate list \<Rightarrow> int option \<Rightarrow> 'b scored_candidate list" where
  "rank_top augmented n = slice_to (sort_key (\<lambda>x. - composite_score x) augmented) n"

record 'b quote_response =
  resp_from :: string
  resp_to :: string
  resp_amount :: real
  resp_rate :: real
  results :: "'b scored_candidate list"
  resp_weights :: "real dict"

text \<open>
  Lines 59 to 63: the spot rate of the pair, from the answer of the rate source; an answer
  without \<^verbatim>\<open>rates\<close> counts as an empty dictionary.
\<close>

definition lookup_rate :: "('f, 'b) services \<Rightarrow> string \<Rightarrow> string \<Rightarrow> error + real" where
  "lookup_rate S from_cur to_cur =
     err_bind (get_live_rates S from_cur) (\<lambda>fx_rates.
       let rates = (case fx_rates of None \<Rightarrow> [] | Some d \<Rightarrow> d) in
       case map_of rates to_cur of
         None \<Rightarrow>
           Inl (HTTPException 400
                 (''currency pair '' @ from_cur @ ''->'' @ to_cur @ '' not available''))
       | Some rate \<Rightarrow> Inr rate)"

text \<open>
  Lines 65 to 139: the numeric results, the weights (in exact arithmetic), the baselines
  and the scored candidates, in the order of the providers.
\<close>

definition score_all ::
  "('f, 'b) services \<Rightarrow> real \<Rightarrow> real \<Rightarrow> 'f provider list \<Rightarrow> real py_value dict option
     \<Rightarrow> error + (real dict \<times> 'b scored_candidate list)"
where
  "score_all S amt rate providers req_weights =
     err_bind (numeric_results S amt rate providers) (\<lambda>nrs.
     err_bind (resolve_weights real_arith req_weights) (\<lambda>w.
     err_bind (best_landing nrs) (\<lambda>bl.
     err_bind (best_fees nrs) (\<lambda>bf.
     err_bind (augment S w bl bf nrs providers) (\<lambda>augmented.
       Inr (w, augmented))))))"

text \<open>The endpoint, lines 47 to 143. The providers are the rows the query returns.\<close>

definition quote ::
  "('f, 'b) services \<Rightarrow> 'f provider list \<Rightarrow> quote_request \<Rightarrow> error + 'b quote_response"
where
  "quote S providers req =
     (let from_cur = upper (from_currency req);
          to_cur = upper (to_currency req);
          amt = amount req
      in if amt \<le> 0 then Inl (HTTPException 400 ''amount must be > 0'')
         else if providers = [] then Inl (HTTPException 500 ''no providers available'')
         else
           err_bind (lookup_rate S from_cur to_cur) (\<lambda>rate.
           err_bind (score_all S amt rate providers (weights req)) (\<lambda>(w, augmented).
             Inr \<lparr>resp_from = from_cur, resp_to = to_cur, resp_amount = amt,
                  resp_rate = rate, results = rank_top augmented (top_n req),
                  resp_weights = w\<rparr>)))"

subsection \<open>The helpers of services.py, from the specification\<close>

text \<open>
  Modelled from the spec: \<^verbatim>\<open>compute_financial_score\<close> of \<^verbatim>\<open>services.py\<close> is missing from
  the sources. Section 4.3 of the specification gives the composition
  \<^verbatim>\<open>0.5 * (landing / best_landing) + 0.5 * (best_fees / max(fees, epsilon))\<close>, clamped into
  \<open>[0, 1]\<close>, with the landing ratio replaced by a fixed neutral value when the best landing
  is \<open>0\<close>. The neutral value and \<open>epsilon\<close> are not given: they are the first two arguments.
\<close>

definition compute_financial_score_spec ::
  "real \<Rightarrow> real \<Rightarrow> real \<Rightarrow> real \<Rightarrow> real \<Rightarrow> real \<Rightarrow> error + real"
where
  "compute_financial_score_spec neutral epsilon landing_v fees_v best_landing_v best_fees_v =
     err_bind (if best_landing_v = 0 then Inr neutral else py_div landing_v best_landing_v)
       (\<lambda>landing_ratio.
     err_bind (py_div best_fees_v (max fees_v epsilon)) (\<lambda>fee_ratio.
       Inr (max 0 (min 1 (0.5 * landing_ratio + 0.5 * fee_ratio)))))"

text \<open>
  Modelled from the spec: \<^verbatim>\<open>_normalize\<close> of \<^verbatim>\<open>services.py\<close> is missing from the sources.
  Section 4.2: a linear rescale of the raw scale, here 0 to 100, onto \<open>[0, 1]\<close>, clamped.
\<close>

definition normalize_spec :: "real \<Rightarrow> error + real" where
  "normalize_spec raw = Inr (max 0 (min 1 (raw / 100)))"

text \<open>
  Modelled from the spec: \<^verbatim>\<open>compute_for_provider\<close> of \<^verbatim>\<open>services.py\<close> is missing from the
  sources. Section 4.1: a fixed fee and a percentage fee on the amount, a margin on the
  spot rate, and \<^verbatim>\<open>landing = max(0, amount - total_fees) * effective_rate\<close>.
\<close>

record fee_rule_set =
  fixed_fee :: real
  rate_pct :: real
  fx_margin :: real

definition compute_for_provider_spec ::
  "real \<Rightarrow> real \<Rightarrow> fee_rule_set \<Rightarrow> error + (string \<times> real) list fee_result"
where
  "compute_for_provider_spec amt spot_rate rules =
     (let breakdown = [(''fixed_fee'', fixed_fee rules), (''percentage_fee'', rate_pct rules * amt)];
          total_fees = sum_list (map snd breakdown);
          eff = spot_rate * (1 - fx_margin rules)
      in Inr \<lparr>res_landing = max 0 (amt - total_fees) * eff, res_effective_rate = eff,
              res_fees = total_fees, res_fee_breakdown = breakdown\<rparr>)"

subsection \<open>An example: the two providers of section 8 of the specification\<close>

definition example_services :: "(fee_rule_set, (string \<times> real) list) services" where
  "example_services =
     \<lparr>get_live_rates = (\<lambda>base. Inr (Some [(''EUR'', 1.1), (''GBP'', 0.8)])),
      compute_for_provider = compute_for_provider_spec,
      normalize = normalize_spec,
      compute_financial_score = compute_financial_score_spec (1 / 2) (1 / 1000)\<rparr>"

definition provider_1 :: "fee_rule_set provider" where
  "provider_1 =
     \<lparr>pid = 1, code = ''P1'', name = ''Provider One'', country = ''DE'',
      fee_rules = \<lparr>fixed_fee = 5, rate_pct = 0, fx_margin = 0\<rparr>, prov_notes = [],
      trust_score = 80, service_quality = 80, customer_satisfaction = 80,
      reliability = 80, speed_score = 80\<rparr>"

definition provider_2 :: "fee_rule_set provider" where
  "provider_2 =
     \<lparr>pid = 2, code = ''P2'', name = ''Provider Two'', country = ''FR'',
      fee_rules = \<lparr>fixed_fee = 0, rate_pct = 0, fx_margin = 1 / 100\<rparr>, prov_notes = [],
      trust_score = 60, service_quality = 60, customer_satisfaction = 60,
      reliability = 60, speed_score = 60\<rparr>"

definition example_request :: quote_request where
  "example_request =
     \<lparr>from_currency = ''usd'', to_currency = ''eur'', amount = 1000,
      criteria = Some [''best_landing'', ''lowest_fees''], top_n = Some 3, weights = None\<rparr>"

text \<open>The criteria of the specification, in the order of the default weights.\<close>

definition recognized_keys :: "string list" where
  "recognized_keys =
     [''fees_fx'', ''trust'', ''service'', ''customer_satisfaction'', ''reliability'', ''speed'']"

text \<open>
  The weighted sum in the words of the specification: every weight of the resolved
  dictionary times the score of its criterion.
\<close>

definition criterion_score :: "raw_scores \<Rightarrow> string \<Rightarrow> real" where
  "criterion_score raw k =
     (if k = ''fees_fx'' then financial_score raw
      else if k = ''trust'' then trust_n raw
      else if k = ''service'' then service_n raw
      else if k = ''customer_satisfaction'' then cust_n raw
      else if k = ''reliability'' then reliability_n raw
      else if k = ''speed'' then speed_n raw
      else 0)"

definition weighted_sum :: "real dict \<Rightarrow> (string \<Rightarrow> real) \<Rightarrow> real" where
  "weighted_sum w score = sum_list (map (\<lambda>(k, v). v * score k) w)"

text \<open>A numeric result with the given fees, for examples of the baselines.\<close>

definition nr_with_fees :: "real \<Rightarrow> unit numeric_result" where
  "nr_with_fees f =
     \<lparr>provider_id = 0, nr_code = [], nr_name = [], nr_country = [], landing = 0,
      effective_rate = 1, fees = f, fee_breakdown = (), nr_notes = []\<rparr>"

text \<open>A third provider: the first one with a speed score higher by a thousandth.\<close>

definition provider_3 :: "fee_rule_set provider" where
  "provider_3 = provider_1\<lparr>pid := 3, code := ''P3'', name := ''Provider Three'',
                          speed_score := 80001 / 1000\<rparr>"

section \<open>Properties\<close>

subsection \<open>Sequencing and weight resolution\<close>

lemma err_bind_Inr [simp]: "err_bind (Inr x) f = f x"
  by (simp add: err_bind_def)

lemma err_bind_Inl [simp]: "err_bind (Inl e) f = Inl e"
  by (simp add: err_bind_def)

lemma err_bind_eq_Inr: "err_bind m f = Inr y \<longleftrightarrow> (\<exists>x. m = Inr x \<and> f x = Inr y)"
  by (cases m) simp_all

lemma map_of_in_keys: "map_of d k \<noteq> None \<longleftrightarrow> k \<in> set (map fst d)"
  by (simp add: map_of_eq_None_iff)

lemma merge_weights_keys:
  "merge_weights merged rw = Inr w \<Longrightarrow> map fst w = map fst merged"
proof (induction merged rw rule: merge_weights.induct)
  case (1 merged)
  then show ?case by simp
next
  case (2 merged k v kvs)
  show ?case
  proof (cases "map_of merged k \<noteq> None")
    case True
    then have k: "k \<in> set (map fst merged)"
      using map_of_in_keys [of merged k] by blast
    from True "2.prems" obtain x where x: "py_float v = Inr x"
      and m: "merge_weights (AList.update k x merged) kvs = Inr w"
      by (auto split: sum.splits)
    from "2.IH"(1) [OF True x m] have "map fst w = map fst (AList.update k x merged)" .
    with k show ?thesis by (simp add: update_keys)
  next
    case False
    with "2.prems" have "merge_weights merged kvs = Inr w" by simp
    with "2.IH"(2) False show ?thesis by simp
  qed
qed

lemma merge_weights_filter:
  "set (map fst merged) = K \<Longrightarrow>
   merge_weights merged (filter (\<lambda>(k, v). k \<in> K) rw) = merge_weights merged rw"
proof (induction merged rw rule: merge_weights.induct)
  case (1 merged)
  then show ?case by simp
next
  case (2 merged k v kvs)
  show ?case
  proof (cases "map_of merged k \<noteq> None")
    case True
    then have k: "k \<in> set (map fst merged)"
      using map_of_in_keys [of merged k] by blast
    show ?thesis
    proof (cases "py_float v")
      case (Inl e)
      with True k "2.prems" show ?thesis by simp
    next
      case (Inr x)
      have "set (map fst (AList.update k x merged)) = K"
        using k "2.prems" by (simp add: update_keys)
      from "2.IH"(1) [OF True Inr this] True k "2.prems" Inr show ?thesis by simp
    qed
  next
    case False
    then have "k \<notin> set (map fst merged)"
      using map_of_in_keys [of merged k] by blast
    with "2.IH"(2) [OF False "2.prems"] False "2.prems" show ?thesis by simp
  qed
qed

lemma divide_all_nonzero:
  "\<not> f_is_zero A t \<Longrightarrow> divide_all A d t = Inr (map (\<lambda>(k, v). (k, f_div A v t)) d)"
  by (induction A d t rule: divide_all.induct) (simp_all add: float_div_def)

lemma divide_all_keys: "divide_all A d t = Inr w \<Longrightarrow> map fst w = map fst d"
  by (induction A d t arbitrary: w rule: divide_all.induct) (auto split: sum.splits)

lemma weights_total_nonzero:
  "\<not> f_is_zero A (f_lit A 1) \<Longrightarrow> \<not> f_is_zero A (weights_total A merged)"
  by (simp add: weights_total_def Let_def)

lemma weights_total_real:
  "weights_total real_arith merged
     = (if sum_list (map snd merged) = 0 then 1 else sum_list (map snd merged))"
  by (simp add: weights_total_def real_arith_def)


lemma divided_by_one: "map (\<lambda>(k, v). (k, v / (1::real))) d = d"
  by (induction d) auto

lemma default_weights_keys: "map fst (default_weights A) = recognized_keys"
  by (simp add: default_weights_def recognized_keys_def)

lemma default_weights_sum: "sum_list (map snd (default_weights real_arith)) = 1"
  by (simp add: default_weights_def real_arith_def)

lemma resolve_weights_Some:
  "merge_weights (default_weights A) rw = Inr merged \<Longrightarrow> rw \<noteq> [] \<Longrightarrow>
   \<not> f_is_zero A (f_lit A 1) \<Longrightarrow>
   resolve_weights A (Some rw) =
     Inr (map (\<lambda>(k, v). (k, f_div A v (weights_total A merged))) merged)"
  by (simp add: resolve_weights_def divide_all_nonzero weights_total_nonzero)

lemma resolve_weights_real:
  assumes "merge_weights (default_weights real_arith) rw = Inr merged" and "rw \<noteq> []"
  shows "resolve_weights real_arith (Some rw) =
     Inr (map (\<lambda>(k, v). (k, v / (if sum_list (map snd merged) = 0 then 1
                                  else sum_list (map snd merged)))) merged)"
proof -
  have "\<not> f_is_zero real_arith (f_lit real_arith 1)" by (simp add: real_arith_def)
  from resolve_weights_Some [OF assms this] show ?thesis
    by (simp add: weights_total_real) (simp add: real_arith_def)
qed

lemma resolve_weights_keys:
  assumes "resolve_weights A rwo = Inr w"
  shows "map fst w = recognized_keys"
proof (cases rwo)
  case None
  with assms have "w = default_weights A" by (simp add: resolve_weights_def)
  then show ?thesis by (simp add: default_weights_keys)
next
  case (Some rw)
  show ?thesis
  proof (cases "rw = []")
    case True
    with Some assms have "w = default_weights A" by (simp add: resolve_weights_def)
    then show ?thesis by (simp add: default_weights_keys)
  next
    case False
    with Some assms obtain merged where m: "merge_weights (default_weights A) rw = Inr merged"
      and d: "divide_all A merged (weights_total A merged) = Inr w"
      by (auto simp: resolve_weights_def split: sum.splits)
    from divide_all_keys [OF d] merge_weights_keys [OF m] show ?thesis
      by (simp add: default_weights_keys)
  qed
qed


text \<open>
  Claim C8. Whatever the mapping of the request, the keys outside the six recognized ones
  change nothing: resolution gives the same answer, error or weights, as on the mapping
  without them, even when their values are not numbers. The resolved weights have the six
  recognized keys and no other, and a mapping with unrecognized keys only resolves to the
  defaults.
\<close>

theorem unrecognized_keys_dropped:
  "resolve_weights real_arith (Some rw) =
     resolve_weights real_arith (Some (filter (\<lambda>(k, v). k \<in> set recognized_keys) rw))
   \<and> (\<forall>w. resolve_weights real_arith (Some rw) = Inr w \<longrightarrow> map fst w = recognized_keys)
   \<and> ((\<forall>(k, v)\<in>set rw. k \<notin> set recognized_keys)
        \<longrightarrow> resolve_weights real_arith (Some rw) = Inr (default_weights real_arith))"
proof -
  let ?rw' = "filter (\<lambda>(k, v). k \<in> set recognized_keys) rw"
  let ?d = "default_weights real_arith"
  have K: "set (map fst ?d) = set recognized_keys"
    by (simp add: default_weights_keys)
  have same: "merge_weights ?d ?rw' = merge_weights ?d rw"
    by (rule merge_weights_filter [OF K])
  have empty: "resolve_weights real_arith (Some rw) = Inr ?d" if "?rw' = []"
  proof (cases "rw = []")
    case True
    then show ?thesis by (simp add: resolve_weights_def)
  next
    case False
    from same that have "merge_weights ?d rw = Inr ?d" by simp
    from resolve_weights_real [OF this False] show ?thesis
      by (simp add: default_weights_sum divided_by_one)
  qed
  have first: "resolve_weights real_arith (Some rw) = resolve_weights real_arith (Some ?rw')"
  proof (cases "?rw' = []")
    case True
    with empty show ?thesis by (simp add: resolve_weights_def)
  next
    case False
    then have "rw \<noteq> []" by auto
    with False same show ?thesis by (simp add: resolve_weights_def)
  qed
  have third: "resolve_weights real_arith (Some rw) = Inr ?d"
    if "\<forall>(k, v)\<in>set rw. k \<notin> set recognized_keys"
  proof -
    from that have "?rw' = []" by (auto simp: filter_empty_conv)
    then show ?thesis by (rule empty)
  qed
  from first third show ?thesis by (auto dest: resolve_weights_keys)
qed

theorem unrecognized_keys_dropped_witness:
  "resolve_weights real_arith (Some [(''bogus'', PyOther), (''trust'', PyNum (3 / 10))])
     = resolve_weights real_arith (Some [(''trust'', PyNum (3 / 10))])
   \<and> resolve_weights real_arith (Some [(''bogus'', PyOther), (''trust'', PyNum (3 / 10))])
     = Inr [(''fees_fx'', 10 / 23), (''trust'', 6 / 23), (''service'', 3 / 23),
            (''customer_satisfaction'', 2 / 23), (''reliability'', 6 / 115), (''speed'', 4 / 115)]
   \<and> map fst [(''fees_fx'', 10 / 23 :: real), (''trust'', 6 / 23), (''service'', 3 / 23),
            (''customer_satisfaction'', 2 / 23), (''reliability'', 6 / 115), (''speed'', 4 / 115)]
     = recognized_keys
   \<and> resolve_weights real_arith (Some [(''bogus'', PyOther)]) = Inr (default_weights real_arith)"
proof -
  let ?rw = "[(''bogus'', PyOther), (''trust'', PyNum (3 / 10 :: real))]"
  let ?w = "[(''fees_fx'', 10 / 23 :: real), (''trust'', 6 / 23), (''service'', 3 / 23),
            (''customer_satisfaction'', 2 / 23), (''reliability'', 6 / 115), (''speed'', 4 / 115)]"
  have f: "filter (\<lambda>(k, v). k \<in> set recognized_keys) ?rw = [(''trust'', PyNum (3 / 10))]"
    by (simp add: recognized_keys_def)
  have r: "resolve_weights real_arith (Some ?rw) = Inr ?w" by code_simp
  have u: "\<forall>(k, v)\<in>set [(''bogus'', PyOther :: real py_value)]. k \<notin> set recognized_keys"
    by (simp add: recognized_keys_def)
  from unrecognized_keys_dropped [of ?rw] f r
  have a: "resolve_weights real_arith (Some ?rw)
      = resolve_weights real_arith (Some [(''trust'', PyNum (3 / 10))])"
    and b: "map fst ?w = recognized_keys" by simp_all
  from unrecognized_keys_dropped [of "[(''bogus'', PyOther)]"] u
  have c: "resolve_weights real_arith (Some [(''bogus'', PyOther)])
      = Inr (default_weights real_arith)" by blast
  from a b c r show ?thesis by simp
qed




subsection \<open>The comparison baselines\<close>

lemma fold_min_Min: "fold min xs (x::real) = Min (insert x (set xs))"
  using Min.set_eq_fold [of x xs] by simp

lemma fold_max_Max: "fold max xs (x::real) = Max (insert x (set xs))"
  using Max.set_eq_fold [of x xs] by simp

lemma py_min_nonempty: "xs \<noteq> [] \<Longrightarrow> py_min xs = Inr (Min (set xs))"
  by (cases xs) (simp_all add: fold_min_Min)

lemma py_max_nonempty: "xs \<noteq> [] \<Longrightarrow> py_max xs = Inr (Max (set xs))"
  by (cases xs) (simp_all add: fold_max_Max)

lemma py_min_default_eq: "py_min_default xs d = (if xs = [] then d else Min (set xs))"
  by (cases xs) (simp_all add: fold_min_Min)

lemma best_landing_total: "\<exists>bl. best_landing nrs = Inr bl"
  by (cases nrs) (simp_all add: best_landing_def)

lemma best_fees_total: "\<exists>bf. best_fees nrs = Inr bf"
  by (cases nrs) (simp_all add: best_fees_def)

lemma positive_fees_set:
  "set (map fees (filter (\<lambda>r. 0 < fees r) nrs)) = {f \<in> fees ` set nrs. 0 < f}"
  by auto

text \<open>
  Claim C4. When the lowest fee of a pool of candidates is \<open>0\<close>, the baseline is the lowest
  fee above zero if some candidate has one, and \<open>1\<close> if none has; in both cases a value is
  returned and nothing is raised.
\<close>

theorem best_fees_zero_fallback:
  assumes "nrs \<noteq> []" and "Min (fees ` set nrs) = 0"
  shows "((\<exists>r\<in>set nrs. 0 < fees r)
            \<longrightarrow> best_fees nrs = Inr (Min {f \<in> fees ` set nrs. 0 < f}))
       \<and> ((\<forall>r\<in>set nrs. \<not> 0 < fees r) \<longrightarrow> best_fees nrs = Inr 1)"
proof -
  from assms have "py_min (map fees nrs) = Inr 0"
    by (simp add: py_min_nonempty)
  with assms(1) have bf: "best_fees nrs
      = Inr (py_min_default (map fees (filter (\<lambda>r. 0 < fees r) nrs)) 1)"
    by (simp add: best_fees_def)
  have pos: "best_fees nrs = Inr (Min {f \<in> fees ` set nrs. 0 < f})"
    if "\<exists>r\<in>set nrs. 0 < fees r"
  proof -
    from that have "filter (\<lambda>r. 0 < fees r) nrs \<noteq> []"
      by (simp add: filter_empty_conv)
    then have "py_min_default (map fees (filter (\<lambda>r. 0 < fees r) nrs)) 1
        = Min (set (map fees (filter (\<lambda>r. 0 < fees r) nrs)))"
      by (simp add: py_min_default_eq)
    with bf show ?thesis by (simp only: positive_fees_set)
  qed
  have none: "best_fees nrs = Inr 1" if "\<forall>r\<in>set nrs. \<not> 0 < fees r"
  proof -
    from that have "filter (\<lambda>r. 0 < fees r) nrs = []"
      by (simp add: filter_empty_conv)
    with bf show ?thesis by simp
  qed
  from pos none show ?thesis by blast
qed

theorem best_fees_zero_fallback_witness:
  "best_fees [nr_with_fees 5, nr_with_fees 0, nr_with_fees 3] = Inr 3
   \<and> best_fees [nr_with_fees 0, nr_with_fees 0] = Inr 1"
proof -
  let ?a = "[nr_with_fees 5, nr_with_fees 0, nr_with_fees 3]"
  let ?b = "[nr_with_fees 0, nr_with_fees 0]"
  have a1: "?a \<noteq> []" and b1: "?b \<noteq> []" by simp_all
  have a2: "Min (fees ` set ?a) = 0" by (simp add: nr_with_fees_def)
  have b2: "Min (fees ` set ?b) = 0" by (simp add: nr_with_fees_def)
  have a3: "\<exists>r\<in>set ?a. 0 < fees r" by (simp add: nr_with_fees_def)
  have b3: "\<forall>r\<in>set ?b. \<not> 0 < fees r" by (simp add: nr_with_fees_def)
  have "{f \<in> fees ` set ?a. 0 < f} = {5, 3}" by (auto simp: nr_with_fees_def)
  then have a4: "Min {f \<in> fees ` set ?a. 0 < f} = 3" by simp
  from best_fees_zero_fallback [OF a1 a2] a3
  have "best_fees ?a = Inr (Min {f \<in> fees ` set ?a. 0 < f})" by blast
  with a4 have "best_fees ?a = Inr 3" by simp
  moreover from best_fees_zero_fallback [OF b1 b2] b3 have "best_fees ?b = Inr 1" by blast
  ultimately show ?thesis by simp
qed

subsection \<open>The financial sub-score of the specification\<close>

text \<open>
  Claim C6, on the sub-score as the specification describes it. With a positive \<open>epsilon\<close>
  the sub-score returns a value, never a division by zero, and the value lies in
  \<open>[0, 1]\<close>; when the best landing is \<open>0\<close> the landing ratio is the neutral value.
\<close>

theorem compute_financial_score_spec_bounds:
  assumes "0 < epsilon"
  shows "(\<exists>v. compute_financial_score_spec neutral epsilon l f bl bf = Inr v \<and> 0 \<le> v \<and> v \<le> 1)
    \<and> compute_financial_score_spec neutral epsilon l f 0 bf
        = Inr (max 0 (min 1 (0.5 * neutral + 0.5 * (bf / max f epsilon))))"
proof -
  from assms have "max f epsilon \<noteq> 0" by (simp add: max_def)
  then show ?thesis
    by (simp add: compute_financial_score_spec_def py_div_def)
qed

theorem compute_financial_score_spec_bounds_witness:
  "compute_financial_score_spec (1 / 2) (1 / 1000) 1089 0 0 0 = Inr (1 / 4)
   \<and> compute_financial_score_spec (1 / 2) (1 / 1000) 1089 0 (2189 / 2) 5 = Inr 1"
proof -
  have e: "(0::real) < 1 / 1000" by simp
  have a: "compute_financial_score_spec (1 / 2) (1 / 1000) 1089 0 0 0
      = Inr (max 0 (min 1 (0.5 * (1 / 2) + 0.5 * (0 / max 0 (1 / 1000)))))"
    using compute_financial_score_spec_bounds [OF e, of "1 / 2" 1089 0 0 0] by blast
  have b: "compute_financial_score_spec (1 / 2) (1 / 1000) 1089 0 (2189 / 2) 5 = Inr 1"
    by code_simp
  from a b show ?thesis by simp
qed

subsection \<open>The scoring loop and the endpoint\<close>

lemma numeric_results_codes:
  "numeric_results S amt rate ps = Inr nrs \<Longrightarrow> map nr_code nrs = map code ps"
proof (induction ps arbitrary: nrs)
  case Nil
  then show ?case by simp
next
  case (Cons p ps)
  then show ?case by (auto split: sum.splits)
qed

lemma find_by_code:
  assumes "c \<in> set (map nr_code nrs)"
  shows "\<exists>m. find (\<lambda>x. nr_code x = c) nrs = Some m"
proof (cases "find (\<lambda>x. nr_code x = c) nrs")
  case None
  with assms show ?thesis by (auto simp: find_None_iff)
next
  case (Some m)
  then show ?thesis by simp
qed

text \<open>What the loop of lines 105 to 139 returns for every provider.\<close>

lemma augment_entries:
  assumes "augment S w bl bf nrs ps = Inr aug"
    and "set (map code ps) \<subseteq> set (map nr_code nrs)"
  shows "list_all2
           (\<lambda>p e. \<exists>m raw. find (\<lambda>x. nr_code x = code p) nrs = Some m
                     \<and> score_candidate S w bl bf m p = Inr raw \<and> e = augment_entry m raw)
           ps aug"
  using assms
proof (induction ps arbitrary: aug)
  case Nil
  then show ?case by simp
next
  case (Cons p ps)
  from Cons.prems(2) have "code p \<in> set (map nr_code nrs)" by simp
  then obtain m where m: "find (\<lambda>x. nr_code x = code p) nrs = Some m"
    using find_by_code by blast
  with Cons.prems(1) obtain raw rest where raw: "score_candidate S w bl bf m p = Inr raw"
    and rest: "augment S w bl bf nrs ps = Inr rest" and aug: "aug = augment_entry m raw # rest"
    by (auto split: sum.splits)
  from Cons.prems(2) have "set (map code ps) \<subseteq> set (map nr_code nrs)" by simp
  from Cons.IH [OF rest this] m raw aug show ?case by auto
qed

lemma score_all_entries:
  assumes "score_all S amt rate ps rw = Inr (w, aug)"
  shows "\<exists>nrs bl bf. numeric_results S amt rate ps = Inr nrs
           \<and> resolve_weights real_arith rw = Inr w
           \<and> best_landing nrs = Inr bl \<and> best_fees nrs = Inr bf
           \<and> list_all2
               (\<lambda>p e. \<exists>m raw. find (\<lambda>x. nr_code x = code p) nrs = Some m
                         \<and> score_candidate S w bl bf m p = Inr raw
                         \<and> e = augment_entry m raw)
               ps aug"
proof -
  from assms obtain nrs bl bf where n: "numeric_results S amt rate ps = Inr nrs"
    and w: "resolve_weights real_arith rw = Inr w"
    and bl: "best_landing nrs = Inr bl" and bf: "best_fees nrs = Inr bf"
    and a: "augment S w bl bf nrs ps = Inr aug"
    by (auto simp: score_all_def err_bind_eq_Inr)
  from numeric_results_codes [OF n] have "set (map code ps) \<subseteq> set (map nr_code nrs)"
    by simp
  from augment_entries [OF a this] n w bl bf show ?thesis by blast
qed

lemma score_all_length:
  "score_all S amt rate ps rw = Inr (w, aug) \<Longrightarrow> length aug = length ps"
  by (auto dest!: score_all_entries dest: list_all2_lengthD)

lemma quote_Inr:
  assumes "quote S ps req = Inr resp"
  shows "0 < amount req \<and> ps \<noteq> []
    \<and> (\<exists>rate w aug.
          lookup_rate S (upper (from_currency req)) (upper (to_currency req)) = Inr rate
        \<and> score_all S (amount req) rate ps (weights req) = Inr (w, aug)
        \<and> resp = \<lparr>resp_from = upper (from_currency req), resp_to = upper (to_currency req),
                   resp_amount = amount req, resp_rate = rate,
                   results = rank_top aug (top_n req), resp_weights = w\<rparr>)"
  using assms
  by (auto simp: quote_def Let_def err_bind_eq_Inr split: if_splits)

subsection \<open>Ranking\<close>

lemma slice_to_take: "\<exists>k. slice_to xs n = take k xs"
proof (cases n)
  case None
  then have "slice_to xs n = take (length xs) xs" by (simp add: slice_to_def)
  then show ?thesis by (rule exI)
next
  case (Some k)
  then show ?thesis by (auto simp: slice_to_def)
qed

lemma sort_descending:
  "sorted_wrt (\<lambda>a b. composite_score b \<le> composite_score a)
     (sort_key (\<lambda>x. - composite_score x) xs)"
proof -
  have "sorted (map (\<lambda>x. - composite_score x) (sort_key (\<lambda>x. - composite_score x) xs))"
    by (rule sorted_sort_key)
  then show ?thesis by (simp add: sorted_map)
qed

lemma sort_ties:
  "filter (\<lambda>e. composite_score e = c) (sort_key (\<lambda>x. - composite_score x) xs)
     = filter (\<lambda>e. composite_score e = c) xs"
  using sort_key_stable [of "\<lambda>x. - composite_score x" "- c" xs] by simp

lemma rank_top_sorted:
  "sorted_wrt (\<lambda>a b. composite_score b \<le> composite_score a) (rank_top xs n)"
proof -
  obtain k where "rank_top xs n = take k (sort_key (\<lambda>x. - composite_score x) xs)"
    unfolding rank_top_def using slice_to_take by blast
  with sort_descending [of xs] show ?thesis by (simp add: sorted_wrt_take)
qed

lemma rank_top_ties:
  "prefix (filter (\<lambda>e. composite_score e = c) (rank_top xs n))
          (filter (\<lambda>e. composite_score e = c) xs)"
proof -
  obtain k where k: "rank_top xs n = take k (sort_key (\<lambda>x. - composite_score x) xs)"
    unfolding rank_top_def using slice_to_take by blast
  have "prefix (filter (\<lambda>e. composite_score e = c) (rank_top xs n))
          (filter (\<lambda>e. composite_score e = c) (sort_key (\<lambda>x. - composite_score x) xs))"
    unfolding k by (rule filter_mono_prefix [OF take_is_prefix])
  then show ?thesis by (simp only: sort_ties)
qed

lemma rank_top_length:
  "0 < n \<Longrightarrow> length (rank_top xs (Some n)) = min (nat n) (length xs)"
  by (simp add: rank_top_def slice_to_def min_def)

lemma rank_top_subset: "set (rank_top xs n) \<subseteq> set xs"
proof -
  obtain k where "rank_top xs n = take k (sort_key (\<lambda>x. - composite_score x) xs)"
    unfolding rank_top_def using slice_to_take by blast
  then show ?thesis using set_take_subset [of k "sort_key (\<lambda>x. - composite_score x) xs"]
    by simp
qed

text \<open>
  Claim C1. Whenever the endpoint answers, its results are in descending order of their
  composite score, and for every score the results with that score appear in the order
  they have among the scored candidates, which is the order of the providers: entry by
  entry the candidates carry the codes of the providers.
\<close>

theorem quote_sorted_stable:
  assumes "quote S ps req = Inr resp"
  shows "\<exists>w aug. score_all S (amount req) (resp_rate resp) ps (weights req) = Inr (w, aug)
    \<and> map (nr_code \<circ> matched) aug = map code ps
    \<and> sorted_wrt (\<lambda>a b. composite_score b \<le> composite_score a) (results resp)
    \<and> (\<forall>c. prefix (filter (\<lambda>e. composite_score e = c) (results resp))
                   (filter (\<lambda>e. composite_score e = c) aug))"
proof -
  from quote_Inr [OF assms] obtain rate w aug
    where sa: "score_all S (amount req) rate ps (weights req) = Inr (w, aug)"
      and rate: "resp_rate resp = rate" and res: "results resp = rank_top aug (top_n req)"
    by auto
  from score_all_entries [OF sa] obtain nrs bl bf
    where la: "list_all2
               (\<lambda>p e. \<exists>m raw. find (\<lambda>x. nr_code x = code p) nrs = Some m
                         \<and> score_candidate S w bl bf m p = Inr raw
                         \<and> e = augment_entry m raw)
               ps aug" by blast
  have "list_all2 (\<lambda>p e. code p = (nr_code \<circ> matched) e) ps aug"
    by (rule list_all2_mono [OF la]) (auto simp: augment_entry_def dest: find_Some_iff [THEN iffD1])
  then have codes: "map (nr_code \<circ> matched) aug = map code ps"
    by (induction rule: list_all2_induct) auto
  from sa rate codes res rank_top_sorted [of aug "top_n req"] rank_top_ties [of _ aug "top_n req"]
  show ?thesis by auto
qed

theorem quote_sorted_stable_witness:
  "\<not> isl (quote example_services [provider_2, provider_1] example_request)
   \<and> sorted_wrt (\<lambda>a b. composite_score b \<le> composite_score a)
        (results (projr (quote example_services [provider_2, provider_1] example_request)))
   \<and> map composite_score
        (results (projr (quote example_services [provider_2, provider_1] example_request)))
      = [9 / 10, 4 / 5]"
proof -
  let ?q = "quote example_services [provider_2, provider_1] example_request"
  have ok: "\<not> isl ?q" by code_simp
  then have "?q = Inr (projr ?q)" by simp
  from quote_sorted_stable [OF this]
  have "sorted_wrt (\<lambda>a b. composite_score b \<le> composite_score a) (results (projr ?q))"
    by blast
  moreover have "map composite_score (results (projr ?q)) = [9 / 10, 4 / 5]" by code_simp
  ultimately show ?thesis using ok by simp
qed

text \<open>
  Claim C5. For a positive \<open>top_n\<close> the results are the first \<open>top_n\<close> of the scored
  candidates in ranked order (sorted descending on the composite score, ties in the order
  of the providers). There is one candidate for every provider, no provider being skipped
  by the scoring loop, so the answer has \<open>min top_n (number of providers)\<close> results, and
  when \<open>top_n\<close> is not below the number of providers the results are all the candidates,
  ranked.
\<close>

theorem quote_length:
  assumes "quote S ps req = Inr resp" and "top_n req = Some n" and "0 < n"
  shows "\<exists>w aug. score_all S (amount req) (resp_rate resp) ps (weights req) = Inr (w, aug)
    \<and> length aug = length ps
    \<and> results resp = take (nat n) (sort_key (\<lambda>x. - composite_score x) aug)
    \<and> length (results resp) = min (nat n) (length ps)
    \<and> (length ps \<le> nat n \<longrightarrow> results resp = sort_key (\<lambda>x. - composite_score x) aug)"
proof -
  from quote_Inr [OF assms(1)] obtain rate w aug
    where sa: "score_all S (amount req) rate ps (weights req) = Inr (w, aug)"
      and rate: "resp_rate resp = rate" and res: "results resp = rank_top aug (top_n req)"
    by auto
  from score_all_length [OF sa] have len: "length aug = length ps" .
  from res assms(2,3)
  have first: "results resp = take (nat n) (sort_key (\<lambda>x. - composite_score x) aug)"
    by (simp add: rank_top_def slice_to_def)
  with len have "length (results resp) = min (nat n) (length ps)" by (simp add: min_def)
  moreover from first len
  have "length ps \<le> nat n \<longrightarrow> results resp = sort_key (\<lambda>x. - composite_score x) aug"
    by simp
  ultimately show ?thesis using sa rate len first by blast
qed

theorem quote_length_witness:
  "\<not> isl (quote example_services [provider_2, provider_1] example_request)
   \<and> top_n example_request = Some 3
   \<and> map (nr_code \<circ> matched)
       (results (projr (quote example_services [provider_2, provider_1] example_request)))
       = [''P1'', ''P2'']
   \<and> length (results (projr (quote example_services [provider_2, provider_1] example_request)))
       = 2
   \<and> map (nr_code \<circ> matched)
       (results (projr (quote example_services [provider_2, provider_1]
                          (example_request\<lparr>top_n := Some 1\<rparr>))))
       = [''P1'']
   \<and> length (results (projr (quote example_services [provider_2, provider_1]
                               (example_request\<lparr>top_n := Some 1\<rparr>))))
       = 1"
proof -
  let ?ps = "[provider_2, provider_1]"
  let ?r1 = "example_request\<lparr>top_n := Some 1\<rparr>"
  let ?q = "quote example_services ?ps example_request"
  let ?q1 = "quote example_services ?ps ?r1"
  have ok: "\<not> isl ?q" and ok1: "\<not> isl ?q1" by code_simp+
  then have q: "?q = Inr (projr ?q)" and q1: "?q1 = Inr (projr ?q1)" by simp_all
  have t: "top_n example_request = Some 3" by (simp add: example_request_def)
  have t1: "top_n ?r1 = Some 1" by simp
  have big: "length ?ps \<le> nat 3" by simp
  from quote_length [OF q t] big obtain w aug
    where "score_all example_services (amount example_request) (resp_rate (projr ?q)) ?ps
             (weights example_request) = Inr (w, aug)"
      and all: "results (projr ?q) = sort_key (\<lambda>x. - composite_score x) aug"
      and len: "length (results (projr ?q)) = min (nat 3) (length ?ps)"
    by auto
  from quote_length [OF q1 t1]
  have len1: "length (results (projr ?q1)) = min (nat 1) (length ?ps)" by auto
  have codes: "map (nr_code \<circ> matched) (results (projr ?q)) = [''P1'', ''P2'']" by code_simp
  have codes1: "map (nr_code \<circ> matched) (results (projr ?q1)) = [''P1'']" by code_simp
  from ok t codes codes1 len len1 show ?thesis by simp
qed

subsection \<open>The composite score\<close>

lemma six_keys:
  assumes "map fst w = [k1, k2, k3, k4, k5, k6]"
  shows "\<exists>v1 v2 v3 v4 v5 v6. w = [(k1, v1), (k2, v2), (k3, v3), (k4, v4), (k5, v5), (k6, v6)]"
  using assms by (auto simp: map_eq_Cons_conv)

lemma resolved_shape:
  assumes "resolve_weights A rwo = Inr w"
  shows "\<exists>v1 v2 v3 v4 v5 v6.
           w = [(''fees_fx'', v1), (''trust'', v2), (''service'', v3),
                (''customer_satisfaction'', v4), (''reliability'', v5), (''speed'', v6)]"
  using resolve_weights_keys [OF assms] unfolding recognized_keys_def by (rule six_keys)

text \<open>
  Claim C2. With the weights resolved from any request and the sub-scores the helpers
  return for a candidate, the loop body finds all six weights and computes, before the
  rounding of line 138, the composite as the sum over the resolved weights of weight times
  score of the criterion: the financial sub-score for \<open>fees_fx\<close> and the five normalized
  quality scores.
\<close>

theorem composite_is_weighted_sum:
  assumes "resolve_weights A rwo = Inr w"
    and "compute_financial_score S (landing m) (fees m) bl bf = Inr fin"
    and "normalize S (trust_score p) = Inr tr"
    and "normalize S (service_quality p) = Inr se"
    and "normalize S (customer_satisfaction p) = Inr cu"
    and "normalize S (reliability p) = Inr re"
    and "normalize S (speed_score p) = Inr sp"
  shows "\<exists>raw. score_candidate S w bl bf m p = Inr raw
           \<and> financial_score raw = fin \<and> trust_n raw = tr \<and> service_n raw = se
           \<and> cust_n raw = cu \<and> reliability_n raw = re \<and> speed_n raw = sp
           \<and> composite raw = weighted_sum w (criterion_score raw)"
proof -
  from resolved_shape [OF assms(1)] obtain v1 v2 v3 v4 v5 v6
    where w: "w = [(''fees_fx'', v1), (''trust'', v2), (''service'', v3),
                (''customer_satisfaction'', v4), (''reliability'', v5), (''speed'', v6)]"
    by blast
  let ?raw = "\<lparr>financial_score = fin, trust_n = tr, service_n = se, cust_n = cu,
            reliability_n = re, speed_n = sp,
            composite = v1 * fin + v2 * tr + v3 * se + v4 * cu + v5 * re + v6 * sp\<rparr>"
  have "score_candidate S w bl bf m p = Inr ?raw"
    using assms(2-7) by (simp add: score_candidate_def w dict_get_def)
  moreover have "composite ?raw = weighted_sum w (criterion_score ?raw)"
    by (simp add: weighted_sum_def criterion_score_def w)
  ultimately show ?thesis by simp
qed

theorem composite_is_weighted_sum_witness:
  "score_candidate example_services (default_weights real_arith) (2189 / 2) 5
      \<lparr>provider_id = 2, nr_code = ''P2'', nr_name = ''Provider Two'', nr_country = ''FR'',
       landing = 1089, effective_rate = 1089 / 1000, fees = 0,
       fee_breakdown = [(''fixed_fee'', 0), (''percentage_fee'', 0)], nr_notes = []\<rparr>
      provider_2
     = Inr \<lparr>financial_score = 1, trust_n = 3 / 5, service_n = 3 / 5, cust_n = 3 / 5,
            reliability_n = 3 / 5, speed_n = 3 / 5, composite = 4 / 5\<rparr>
   \<and> weighted_sum (default_weights real_arith)
        (criterion_score \<lparr>financial_score = 1, trust_n = 3 / 5, service_n = 3 / 5,
            cust_n = 3 / 5, reliability_n = 3 / 5, speed_n = 3 / 5, composite = 4 / 5\<rparr>)
     = 4 / 5"
proof -
  let ?m = "\<lparr>provider_id = 2, nr_code = ''P2'', nr_name = ''Provider Two'', nr_country = ''FR'',
       landing = 1089, effective_rate = 1089 / 1000, fees = 0,
       fee_breakdown = [(''fixed_fee'', 0 :: real), (''percentage_fee'', 0)], nr_notes = []\<rparr>"
  let ?raw = "\<lparr>financial_score = 1, trust_n = 3 / 5, service_n = 3 / 5, cust_n = 3 / 5,
            reliability_n = 3 / 5, speed_n = 3 / 5, composite = 4 / 5\<rparr>"
  have w: "resolve_weights real_arith None = Inr (default_weights real_arith)"
    by (simp add: resolve_weights_def)
  have f: "compute_financial_score example_services (landing ?m) (fees ?m) (2189 / 2) 5 = Inr 1"
    by code_simp
  have t: "normalize example_services (trust_score provider_2) = Inr (3 / 5)"
    and s: "normalize example_services (service_quality provider_2) = Inr (3 / 5)"
    and c: "normalize example_services (customer_satisfaction provider_2) = Inr (3 / 5)"
    and r: "normalize example_services (reliability provider_2) = Inr (3 / 5)"
    and sp: "normalize example_services (speed_score provider_2) = Inr (3 / 5)"
    by code_simp+
  from composite_is_weighted_sum [OF w f t s c r sp] obtain raw
    where sc: "score_candidate example_services (default_weights real_arith) (2189 / 2) 5 ?m provider_2 = Inr raw"
      and ws: "composite raw = weighted_sum (default_weights real_arith) (criterion_score raw)"
    by blast
  have "score_candidate example_services (default_weights real_arith) (2189 / 2) 5 ?m provider_2 = Inr ?raw"
    by code_simp
  with sc have "raw = ?raw" by simp
  with sc ws show ?thesis by simp
qed

subsection \<open>Rejected requests\<close>

text \<open>
  Claim C7. An amount that is not positive is answered with status 400 and
  \<open>amount must be > 0\<close>; an empty provider table with status 500 and
  \<open>no providers available\<close>; a target currency absent from the rates with status 400 and
  a message naming the pair. The answers hold for every choice of the helpers, so nothing
  of the ranking (line 65 onwards) is evaluated.
\<close>

theorem invalid_input_rejected:
  "(amount req \<le> 0 \<longrightarrow> quote S ps req = Inl (HTTPException 400 ''amount must be > 0''))
   \<and> (0 < amount req \<longrightarrow> quote S [] req = Inl (HTTPException 500 ''no providers available''))
   \<and> (0 < amount req \<and> ps \<noteq> []
        \<and> get_live_rates S (upper (from_currency req)) = Inr fx
        \<and> map_of (case fx of None \<Rightarrow> [] | Some d \<Rightarrow> d) (upper (to_currency req)) = None
      \<longrightarrow> quote S ps req =
            Inl (HTTPException 400
                  (''currency pair '' @ upper (from_currency req) @ ''->''
                     @ upper (to_currency req) @ '' not available'')))"
  by (simp add: quote_def Let_def lookup_rate_def)

theorem invalid_input_rejected_witness:
  "quote example_services [provider_1] (example_request\<lparr>amount := 0\<rparr>)
     = Inl (HTTPException 400 ''amount must be > 0'')
   \<and> quote example_services [] example_request
     = Inl (HTTPException 500 ''no providers available'')
   \<and> quote example_services [provider_1] (example_request\<lparr>to_currency := ''jpy''\<rparr>)
     = Inl (HTTPException 400 ''currency pair USD->JPY not available'')"
proof -
  let ?r0 = "example_request\<lparr>amount := 0\<rparr>"
  let ?rj = "example_request\<lparr>to_currency := ''jpy''\<rparr>"
  have a: "amount ?r0 \<le> 0" by simp
  have b: "0 < amount example_request" by (simp add: example_request_def)
  have uf: "upper (from_currency ?rj) = ''USD''" and ut: "upper (to_currency ?rj) = ''JPY''"
    by code_simp+
  have c: "0 < amount ?rj \<and> [provider_1] \<noteq> []
        \<and> get_live_rates example_services (upper (from_currency ?rj))
            = Inr (Some [(''EUR'', 1.1), (''GBP'', 0.8)])
        \<and> map_of (case Some [(''EUR'', 1.1 :: real), (''GBP'', 0.8)] of None \<Rightarrow> [] | Some d \<Rightarrow> d)
             (upper (to_currency ?rj)) = None"
    unfolding ut by (simp add: example_request_def example_services_def)
  from invalid_input_rejected [of ?r0 example_services "[provider_1]"] a
  have 1: "quote example_services [provider_1] ?r0 = Inl (HTTPException 400 ''amount must be > 0'')"
    by blast
  from invalid_input_rejected [of example_request example_services] b
  have 2: "quote example_services [] example_request
      = Inl (HTTPException 500 ''no providers available'')" by blast
  from invalid_input_rejected [of ?rj example_services "[provider_1]"
      "Some [(''EUR'', 1.1), (''GBP'', 0.8)]"] c
  have "quote example_services [provider_1] ?rj =
            Inl (HTTPException 400
                  (''currency pair '' @ upper (from_currency ?rj) @ ''->''
                     @ upper (to_currency ?rj) @ '' not available''))" by blast
  then have 3: "quote example_services [provider_1] ?rj
      = Inl (HTTPException 400 ''currency pair USD->JPY not available'')"
    unfolding uf ut by simp
  from 1 2 3 show ?thesis by simp
qed

subsection \<open>Determinism\<close>

lemma numeric_results_cong:
  "compute_for_provider S1 = compute_for_provider S2 \<Longrightarrow>
   numeric_results S1 amt rate ps = numeric_results S2 amt rate ps"
  by (induction ps) (simp_all cong: sum.case_cong)

lemma score_candidate_cong:
  "normalize S1 = normalize S2 \<Longrightarrow> compute_financial_score S1 = compute_financial_score S2 \<Longrightarrow>
   score_candidate S1 w bl bf m p = score_candidate S2 w bl bf m p"
  by (simp add: score_candidate_def)

lemma augment_cong:
  assumes "normalize S1 = normalize S2"
    and "compute_financial_score S1 = compute_financial_score S2"
  shows "augment S1 w bl bf nrs ps = augment S2 w bl bf nrs ps"
  by (induction ps)
    (simp_all add: score_candidate_cong [OF assms] cong: sum.case_cong option.case_cong)

lemma score_all_cong:
  assumes "compute_for_provider S1 = compute_for_provider S2"
    and "normalize S1 = normalize S2"
    and "compute_financial_score S1 = compute_financial_score S2"
  shows "score_all S1 amt rate ps rw = score_all S2 amt rate ps rw"
  by (simp add: score_all_def numeric_results_cong [OF assms(1)] augment_cong [OF assms(2,3)])

text \<open>
  Claim C9. Two runs with the same amount, rate, providers, weights and \<open>top_n\<close>, and the
  same scoring helpers, give the same ordered results, the same weights and the same
  rate, or fail with the same error, whatever else differs between the two requests (the
  currency codes, the criteria, the source of the rate).
\<close>

theorem ranking_deterministic:
  assumes "amount r1 = amount r2" and "weights r1 = weights r2" and "top_n r1 = top_n r2"
    and "lookup_rate S1 (upper (from_currency r1)) (upper (to_currency r1)) = Inr rate"
    and "lookup_rate S2 (upper (from_currency r2)) (upper (to_currency r2)) = Inr rate"
    and "compute_for_provider S1 = compute_for_provider S2"
    and "normalize S1 = normalize S2"
    and "compute_financial_score S1 = compute_financial_score S2"
  shows "map_sum id (\<lambda>resp. (results resp, resp_weights resp, resp_rate resp)) (quote S1 ps r1)
       = map_sum id (\<lambda>resp. (results resp, resp_weights resp, resp_rate resp)) (quote S2 ps r2)"
proof -
  have sa: "score_all S1 (amount r1) rate ps (weights r1)
      = score_all S2 (amount r2) rate ps (weights r2)"
    using assms(1,2) score_all_cong [OF assms(6-8)] by simp
  show ?thesis
  proof (cases "score_all S2 (amount r2) rate ps (weights r2)")
    case (Inl e)
    with sa assms(1-5) show ?thesis by (simp add: quote_def Let_def)
  next
    case (Inr wa)
    with sa assms(1-5) show ?thesis
      by (cases wa) (simp add: quote_def Let_def)
  qed
qed

theorem ranking_deterministic_witness:
  "map_sum id (\<lambda>resp. (results resp, resp_weights resp, resp_rate resp))
     (quote example_services [provider_2, provider_1] example_request)
   = map_sum id (\<lambda>resp. (results resp, resp_weights resp, resp_rate resp))
     (quote (example_services\<lparr>get_live_rates := \<lambda>base. Inr (Some [(''EUR'', 11 / 10)])\<rparr>)
        [provider_2, provider_1]
        (example_request\<lparr>from_currency := ''chf'', criteria := None\<rparr>))
   \<and> \<not> isl (quote example_services [provider_2, provider_1] example_request)"
proof -
  let ?S2 = "example_services\<lparr>get_live_rates := \<lambda>base. Inr (Some [(''EUR'', 11 / 10)])\<rparr>"
  let ?r2 = "example_request\<lparr>from_currency := ''chf'', criteria := None\<rparr>"
  have 1: "amount example_request = amount ?r2" and 2: "weights example_request = weights ?r2"
    and 3: "top_n example_request = top_n ?r2" by simp_all
  have 4: "lookup_rate example_services (upper (from_currency example_request))
             (upper (to_currency example_request)) = Inr (11 / 10)" by code_simp
  have 5: "lookup_rate ?S2 (upper (from_currency ?r2)) (upper (to_currency ?r2)) = Inr (11 / 10)"
    by code_simp
  have 6: "compute_for_provider example_services = compute_for_provider ?S2"
    and 7: "normalize example_services = normalize ?S2"
    and 8: "compute_financial_score example_services = compute_financial_score ?S2"
    by simp_all
  have ok: "\<not> isl (quote example_services [provider_2, provider_1] example_request)"
    by code_simp
  from ranking_deterministic [OF 1 2 3 4 5 6 7 8, of "[provider_2, provider_1]"] ok
  show ?thesis by simp
qed

subsection \<open>Rounding\<close>

lemma round_half_even_of_int: "round_half_even (of_int k) = k"
  by (simp add: round_half_even_def)

lemma py_round_idem: "py_round (py_round x n) n = py_round x n"
  by (simp add: py_round_def round_half_even_of_int)

lemma augment_entry_rounded:
  "py_round (composite_score (augment_entry m raw)) 6 = composite_score (augment_entry m raw)
   \<and> py_round (cs_financial (component_scores (augment_entry m raw))) 6
       = cs_financial (component_scores (augment_entry m raw))
   \<and> py_round (cs_trust (component_scores (augment_entry m raw))) 6
       = cs_trust (component_scores (augment_entry m raw))
   \<and> py_round (cs_service (component_scores (augment_entry m raw))) 6
       = cs_service (component_scores (augment_entry m raw))
   \<and> py_round (cs_customer_satisfaction (component_scores (augment_entry m raw))) 6
       = cs_customer_satisfaction (component_scores (augment_entry m raw))
   \<and> py_round (cs_reliability (component_scores (augment_entry m raw))) 6
       = cs_reliability (component_scores (augment_entry m raw))
   \<and> py_round (cs_speed (component_scores (augment_entry m raw))) 6
       = cs_speed (component_scores (augment_entry m raw))"
  by (simp add: augment_entry_def py_round_idem)

text \<open>
  Claim C10. Every candidate of the answer carries the sub-scores and the composite of its
  provider rounded to six decimals (rounding them again changes nothing); the results are
  a slice of the candidates sorted on the rounded composite, and the sort leaves the
  candidates of equal rounded composite in their order.
\<close>

theorem scores_rounded:
  assumes "quote S ps req = Inr resp"
  shows "\<exists>w aug nrs bl bf.
      score_all S (amount req) (resp_rate resp) ps (weights req) = Inr (w, aug)
    \<and> list_all2
        (\<lambda>p e. \<exists>m raw. score_candidate S w bl bf m p = Inr raw
           \<and> composite_score e = py_round (composite raw) 6
           \<and> component_scores e =
               \<lparr>cs_financial = py_round (financial_score raw) 6,
                cs_trust = py_round (trust_n raw) 6,
                cs_service = py_round (service_n raw) 6,
                cs_customer_satisfaction = py_round (cust_n raw) 6,
                cs_reliability = py_round (reliability_n raw) 6,
                cs_speed = py_round (speed_n raw) 6\<rparr>)
        ps aug
    \<and> results resp = slice_to (sort_key (\<lambda>x. - composite_score x) aug) (top_n req)
    \<and> (\<forall>c. filter (\<lambda>e. composite_score e = c) (sort_key (\<lambda>x. - composite_score x) aug)
            = filter (\<lambda>e. composite_score e = c) aug)
    \<and> (\<forall>e\<in>set (results resp).
          py_round (composite_score e) 6 = composite_score e
        \<and> py_round (cs_financial (component_scores e)) 6 = cs_financial (component_scores e)
        \<and> py_round (cs_trust (component_scores e)) 6 = cs_trust (component_scores e)
        \<and> py_round (cs_service (component_scores e)) 6 = cs_service (component_scores e)
        \<and> py_round (cs_customer_satisfaction (component_scores e)) 6
            = cs_customer_satisfaction (component_scores e)
        \<and> py_round (cs_reliability (component_scores e)) 6 = cs_reliability (component_scores e)
        \<and> py_round (cs_speed (component_scores e)) 6 = cs_speed (component_scores e))"
proof -
  from quote_Inr [OF assms] obtain rate w aug
    where sa: "score_all S (amount req) rate ps (weights req) = Inr (w, aug)"
      and rate: "resp_rate resp = rate" and res: "results resp = rank_top aug (top_n req)"
    by auto
  from score_all_entries [OF sa] obtain nrs bl bf
    where la: "list_all2
               (\<lambda>p e. \<exists>m raw. find (\<lambda>x. nr_code x = code p) nrs = Some m
                         \<and> score_candidate S w bl bf m p = Inr raw
                         \<and> e = augment_entry m raw)
               ps aug" by blast
  have entries: "list_all2
        (\<lambda>p e. \<exists>m raw. score_candidate S w bl bf m p = Inr raw
           \<and> composite_score e = py_round (composite raw) 6
           \<and> component_scores e =
               \<lparr>cs_financial = py_round (financial_score raw) 6,
                cs_trust = py_round (trust_n raw) 6,
                cs_service = py_round (service_n raw) 6,
                cs_customer_satisfaction = py_round (cust_n raw) 6,
                cs_reliability = py_round (reliability_n raw) 6,
                cs_speed = py_round (speed_n raw) 6\<rparr>)
        ps aug"
  proof (rule list_all2_mono [OF la])
    fix p e
    assume "\<exists>m raw. find (\<lambda>x. nr_code x = code p) nrs = Some m
              \<and> score_candidate S w bl bf m p = Inr raw \<and> e = augment_entry m raw"
    then obtain m raw where "score_candidate S w bl bf m p = Inr raw"
      and "e = augment_entry m raw" by blast
    then show "\<exists>m raw. score_candidate S w bl bf m p = Inr raw
           \<and> composite_score e = py_round (composite raw) 6
           \<and> component_scores e =
               \<lparr>cs_financial = py_round (financial_score raw) 6,
                cs_trust = py_round (trust_n raw) 6,
                cs_service = py_round (service_n raw) 6,
                cs_customer_satisfaction = py_round (cust_n raw) 6,
                cs_reliability = py_round (reliability_n raw) 6,
                cs_speed = py_round (speed_n raw) 6\<rparr>"
      by (intro exI [of _ m] exI [of _ raw]) (simp add: augment_entry_def)
  qed
  from la have "list_all2 (\<lambda>p e. \<exists>m raw. e = augment_entry m raw) ps aug"
    by (rule list_all2_mono) blast
  then have "\<forall>e\<in>set aug. \<exists>m raw. e = augment_entry m raw"
    by (induction rule: list_all2_induct) auto
  with rank_top_subset [of aug "top_n req"] res
  have built: "\<forall>e\<in>set (results resp). \<exists>m raw. e = augment_entry m raw" by auto
  have rounded: "\<forall>e\<in>set (results resp).
          py_round (composite_score e) 6 = composite_score e
        \<and> py_round (cs_financial (component_scores e)) 6 = cs_financial (component_scores e)
        \<and> py_round (cs_trust (component_scores e)) 6 = cs_trust (component_scores e)
        \<and> py_round (cs_service (component_scores e)) 6 = cs_service (component_scores e)
        \<and> py_round (cs_customer_satisfaction (component_scores e)) 6
            = cs_customer_satisfaction (component_scores e)
        \<and> py_round (cs_reliability (component_scores e)) 6 = cs_reliability (component_scores e)
        \<and> py_round (cs_speed (component_scores e)) 6 = cs_speed (component_scores e)"
  proof
    fix e
    assume "e \<in> set (results resp)"
    with built obtain m raw where e: "e = augment_entry m raw" by blast
    show "py_round (composite_score e) 6 = composite_score e
        \<and> py_round (cs_financial (component_scores e)) 6 = cs_financial (component_scores e)
        \<and> py_round (cs_trust (component_scores e)) 6 = cs_trust (component_scores e)
        \<and> py_round (cs_service (component_scores e)) 6 = cs_service (component_scores e)
        \<and> py_round (cs_customer_satisfaction (component_scores e)) 6
            = cs_customer_satisfaction (component_scores e)
        \<and> py_round (cs_reliability (component_scores e)) 6 = cs_reliability (component_scores e)
        \<and> py_round (cs_speed (component_scores e)) 6 = cs_speed (component_scores e)"
      unfolding e by (rule augment_entry_rounded)
  qed
  from res have res': "results resp = slice_to (sort_key (\<lambda>x. - composite_score x) aug) (top_n req)"
    by (simp add: rank_top_def)
  from sa rate entries res' rounded sort_ties [of _ aug] show ?thesis by blast
qed

theorem scores_rounded_witness:
  "\<not> isl (quote example_services [provider_1, provider_3] example_request)
   \<and> map (nr_code \<circ> matched)
        (results (projr (quote example_services [provider_1, provider_3] example_request)))
      = [''P1'', ''P3'']
   \<and> map composite_score
        (results (projr (quote example_services [provider_1, provider_3] example_request)))
      = [9 / 10, 9 / 10]
   \<and> map_sum id composite
        (score_candidate example_services (default_weights real_arith) (2189 / 2) 5
           \<lparr>provider_id = 3, nr_code = ''P3'', nr_name = ''Provider Three'', nr_country = ''DE'',
            landing = 2189 / 2, effective_rate = 11 / 10, fees = 5,
            fee_breakdown = [(''fixed_fee'', 5), (''percentage_fee'', 0)], nr_notes = []\<rparr>
           provider_3)
      = Inr (9000004 / 10000000)
   \<and> py_round (composite_score
        (hd (results (projr (quote example_services [provider_1, provider_3] example_request))))) 6
      = composite_score
        (hd (results (projr (quote example_services [provider_1, provider_3] example_request))))"
proof -
  let ?q = "quote example_services [provider_1, provider_3] example_request"
  have ok: "\<not> isl ?q" by code_simp
  then have q: "?q = Inr (projr ?q)" by simp
  have codes: "map (nr_code \<circ> matched) (results (projr ?q)) = [''P1'', ''P3'']" by code_simp
  have scores: "map composite_score (results (projr ?q)) = [9 / 10, 9 / 10]" by code_simp
  have raw: "map_sum id composite
        (score_candidate example_services (default_weights real_arith) (2189 / 2) 5
           \<lparr>provider_id = 3, nr_code = ''P3'', nr_name = ''Provider Three'', nr_country = ''DE'',
            landing = 2189 / 2, effective_rate = 11 / 10, fees = 5,
            fee_breakdown = [(''fixed_fee'', 5), (''percentage_fee'', 0)], nr_notes = []\<rparr>
           provider_3)
      = Inr (9000004 / 10000000)" by code_simp
  from scores have "results (projr ?q) \<noteq> []" by auto
  then have "hd (results (projr ?q)) \<in> set (results (projr ?q))" by simp
  moreover from scores_rounded [OF q]
  have "\<forall>e\<in>set (results (projr ?q)). py_round (composite_score e) 6 = composite_score e"
    by (elim exE conjE) simp
  ultimately have "py_round (composite_score (hd (results (projr ?q)))) 6
      = composite_score (hd (results (projr ?q)))" by simp
  with ok codes scores raw show ?thesis by simp
qed

subsection \<open>The endpoint answers\<close>

lemma numeric_results_total:
  assumes "\<forall>f. \<exists>res. compute_for_provider S amt rate f = Inr res"
  shows "\<exists>nrs. numeric_results S amt rate ps = Inr nrs"
proof (induction ps)
  case Nil
  then show ?case by simp
next
  case (Cons p ps)
  from assms obtain res where "compute_for_provider S amt rate (fee_rules p) = Inr res"
    by blast
  with Cons show ?case by auto
qed

lemma score_candidate_total:
  assumes "resolve_weights A rwo = Inr w"
    and "\<forall>a b c d. \<exists>v. compute_financial_score S a b c d = Inr v"
    and "\<forall>x. \<exists>v. normalize S x = Inr v"
  shows "\<exists>raw. score_candidate S w bl bf m p = Inr raw"
proof -
  from resolved_shape [OF assms(1)] obtain v1 v2 v3 v4 v5 v6
    where w: "w = [(''fees_fx'', v1), (''trust'', v2), (''service'', v3),
                (''customer_satisfaction'', v4), (''reliability'', v5), (''speed'', v6)]"
    by blast
  from assms(2) obtain fin
    where "compute_financial_score S (landing m) (fees m) bl bf = Inr fin" by blast
  moreover from assms(3) obtain tr se cu re sp
    where "normalize S (trust_score p) = Inr tr" and "normalize S (service_quality p) = Inr se"
      and "normalize S (customer_satisfaction p) = Inr cu"
      and "normalize S (reliability p) = Inr re" and "normalize S (speed_score p) = Inr sp"
    by metis
  ultimately show ?thesis by (simp add: score_candidate_def w dict_get_def)
qed

lemma augment_total:
  assumes "\<forall>m p. \<exists>raw. score_candidate S w bl bf m p = Inr raw"
  shows "\<exists>aug. augment S w bl bf nrs ps = Inr aug"
proof (induction ps)
  case Nil
  then show ?case by simp
next
  case (Cons p ps)
  then obtain rest where rest: "augment S w bl bf nrs ps = Inr rest" by blast
  show ?case
  proof (cases "find (\<lambda>x. nr_code x = code p) nrs")
    case None
    with rest show ?thesis by simp
  next
    case (Some m)
    from assms obtain raw where "score_candidate S w bl bf m p = Inr raw" by blast
    with Some rest show ?thesis by simp
  qed
qed

text \<open>
  The endpoint answers whenever the request passes the three checks, the recognized
  weights are numbers and the helpers return: the dictionary lookups, \<^verbatim>\<open>max\<close> and
  \<^verbatim>\<open>min\<close> of the pipeline itself raise nothing.
\<close>

lemma quote_returns:
  assumes "0 < amount req" and "ps \<noteq> []"
    and "lookup_rate S (upper (from_currency req)) (upper (to_currency req)) = Inr rate"
    and "resolve_weights real_arith (weights req) = Inr w"
    and "\<forall>f. \<exists>res. compute_for_provider S (amount req) rate f = Inr res"
    and "\<forall>a b c d. \<exists>v. compute_financial_score S a b c d = Inr v"
    and "\<forall>x. \<exists>v. normalize S x = Inr v"
  shows "\<exists>resp. quote S ps req = Inr resp"
proof -
  from numeric_results_total [OF assms(5)] obtain nrs
    where n: "numeric_results S (amount req) rate ps = Inr nrs" by blast
  obtain bl where bl: "best_landing nrs = Inr bl" using best_landing_total by blast
  obtain bf where bf: "best_fees nrs = Inr bf" using best_fees_total by blast
  have "\<forall>m p. \<exists>raw. score_candidate S w bl bf m p = Inr raw"
    using score_candidate_total [OF assms(4,6,7)] by blast
  from augment_total [OF this] obtain aug
    where "augment S w bl bf nrs ps = Inr aug" by blast
  with n bl bf assms(4) have "score_all S (amount req) rate ps (weights req) = Inr (w, aug)"
    by (simp add: score_all_def)
  with assms(1-3) show ?thesis by (simp add: quote_def Let_def)
qed

end
